theory Spec2Isabelle
  imports Main
begin

section \<open>Library functions the package calls\<close>

text \<open>
  The package calls \<^verbatim>\<open>strings.Split\<close>, \<^verbatim>\<open>strconv.Itoa\<close> and \<^verbatim>\<open>fmt.Sprintf\<close> of the Go
  standard library. Go strings are byte sequences and so are HOL strings.
\<close>

subsection \<open>strings.Split\<close>

text \<open>
  \<^verbatim>\<open>strings.Split(s, sep)\<close> for a separator of one byte, the only way \<^verbatim>\<open>lang\<close> calls
  it (\<^verbatim>\<open>";"\<close> and \<^verbatim>\<open>"="\<close>): the pieces of \<open>s\<close> between the occurrences of \<open>sep\<close>, in
  order. The empty string has the one piece \<open>''''\<close>.
\<close>

fun Split :: "string \<Rightarrow> char \<Rightarrow> string list" where
  "Split [] sep = [[]]"
| "Split (x # xs) sep =
     (if x = sep then [] # Split xs sep
      else (case Split xs sep of
              [] \<Rightarrow> [[x]]
            | w # ws \<Rightarrow> (x # w) # ws))"

text \<open>\<^verbatim>\<open>strings.Join\<close> with a separator of one byte, to say what \<open>Split\<close> computes.\<close>

fun Join :: "string list \<Rightarrow> char \<Rightarrow> string" where
  "Join [] sep = []"
| "Join [w] sep = w"
| "Join (w # v # ws) sep = w @ sep # Join (v # ws) sep"

subsection \<open>strconv.Itoa\<close>

text \<open>
  \<^verbatim>\<open>strconv.Itoa(i)\<close>: the decimal digits of \<open>i\<close>, most significant first, after a
  minus sign when \<open>i\<close> is negative. No arithmetic is done on response codes, so Go's
  \<^verbatim>\<open>int\<close> is modelled by \<open>int\<close>.
\<close>

definition digit_char :: "nat \<Rightarrow> char" where
  "digit_char d = ''0123456789'' ! d"

fun digits :: "nat \<Rightarrow> string" where
  "digits n = (if n < 10 then [digit_char n] else digits (n div 10) @ [digit_char (n mod 10)])"

definition Itoa :: "int \<Rightarrow> string" where
  "Itoa i = (if i < 0 then CHR ''-'' # digits (nat (- i)) else digits (nat i))"

subsection \<open>fmt.Sprintf\<close>

text \<open>
  \<^verbatim>\<open>Trans\<close> hands the stored template and the caller's parameters to \<^verbatim>\<open>fmt.Sprintf\<close>.
  The formatter is library code, so the operations below take it as the argument
  \<open>Sprintf\<close> and every theorem holds for any formatter.

  \<open>Sprintf_s\<close> is the formatter on the templates the package's language files use:
  text with the verbs \<^verbatim>\<open>%s\<close>, \<^verbatim>\<open>%v\<close> and \<^verbatim>\<open>%%\<close>, and string operands. A verb with no
  operand left prints \<^verbatim>\<open>%!s(MISSING)\<close>, a trailing \<^verbatim>\<open>%\<close> prints \<^verbatim>\<open>%!(NOVERB)\<close>, and
  operands left over are listed in \<^verbatim>\<open>%!(EXTRA string=a, string=b)\<close>. Any other
  letter after \<^verbatim>\<open>%\<close> is printed the way Go reports a verb that does not fit a string,
  \<^verbatim>\<open>%!d(string=a)\<close>. Flags, widths, precisions, explicit argument indexes
  (\<^verbatim>\<open>%[2]s\<close>) and the verbs \<^verbatim>\<open>%q\<close>, \<^verbatim>\<open>%x\<close>, \<^verbatim>\<open>%X\<close> and \<^verbatim>\<open>%T\<close> are outside this fragment:
  there \<open>Sprintf_s\<close> is not \<^verbatim>\<open>fmt.Sprintf\<close>. It instantiates \<open>Sprintf\<close> in the examples
  only, on templates of the fragment.
\<close>

fun extra_args :: "string list \<Rightarrow> string" where
  "extra_args [] = []"
| "extra_args [a] = ''string='' @ a"
| "extra_args (a # b # bs) = ''string='' @ a @ '', '' @ extra_args (b # bs)"

fun Sprintf_s :: "string \<Rightarrow> string list \<Rightarrow> string" where
  "Sprintf_s [] [] = []"
| "Sprintf_s [] (a # as) = ''%!(EXTRA '' @ extra_args (a # as) @ '')''"
| "Sprintf_s [c] as =
     (if c = CHR ''%'' then ''%!(NOVERB)'' @ Sprintf_s [] as else c # Sprintf_s [] as)"
| "Sprintf_s (c # v # fs) as =
     (if c \<noteq> CHR ''%'' then c # Sprintf_s (v # fs) as
      else if v = CHR ''%'' then CHR ''%'' # Sprintf_s fs as
      else (case as of
              [] \<Rightarrow> ''%!'' @ [v] @ ''(MISSING)'' @ Sprintf_s fs []
            | a # as' \<Rightarrow>
                (if v = CHR ''s'' \<or> v = CHR ''v'' then a
                 else ''%!'' @ [v] @ ''(string='' @ a @ '')'') @ Sprintf_s fs as'))"

text \<open>
  A Go \<^verbatim>\<open>error\<close> is nil or a value with an \<^verbatim>\<open>Error()\<close> method: \<open>None\<close> is nil and
  \<open>Some s\<close> is an error whose method returns \<open>s\<close>. \<^verbatim>\<open>fmt.Sprintf("%v", err)\<close> prints
  that string, and \<^verbatim>\<open><nil>\<close> for nil.
\<close>

type_synonym error = "string option"

fun Sprintf_v :: "error \<Rightarrow> string" where
  "Sprintf_v None = ''<nil>''"
| "Sprintf_v (Some s) = s"

section \<open>Data model\<close>

text \<open>
  The struct \<^verbatim>\<open>option\<close> is the record \<open>options\<close> (\<open>option\<close> is a type of HOL).
  \<^verbatim>\<open>Manager.Option\<close> is a pointer to the one \<^verbatim>\<open>option\<close> value that \<^verbatim>\<open>New\<close> allocates for
  the Manager, so the record is nested and \<^verbatim>\<open>SetLang\<close> returns the updated Manager.
  The pointers \<^verbatim>\<open>m.Option\<close> and \<^verbatim>\<open>c.Request\<close> are the ones \<^verbatim>\<open>New\<close> and gin set: a nil
  pointer is not a value of the records.
\<close>

record options =
  langDir :: string
  defaultLang :: string
  envKey :: string
  debugMode :: bool

text \<open>
  \<^verbatim>\<open>LangList\<close> is a \<^verbatim>\<open>map[string]map[string]string\<close>. Reading a key that is absent
  gives the nil map, and reading a nil map finds nothing: the nil map and the empty
  map are both \<open>Map.empty\<close>.
\<close>

record Manager =
  LangList :: "string \<rightharpoonup> (string \<rightharpoonup> string)"
  Option :: options
  RunEnv :: string

text \<open>
  Values of type \<^verbatim>\<open>interface{}\<close>: the payload of a response and the values stored in
  the request context. \<open>VData ps d\<close> is the struct \<^verbatim>\<open>Data{Params: ps, Data: d}\<close>;
  \<open>VPtr v\<close> is a pointer to a value (a \<^verbatim>\<open>*Data\<close> is not a \<^verbatim>\<open>Data\<close>).
\<close>

datatype any =
    VNil
  | VString string
  | VInt int
  | VBool bool
  | VData "string list" any
  | VPtr any

record trace =
  ID :: string
  Desc :: string

record result =
  Code :: int
  Msg :: string
  Trace :: trace
  Data :: any

text \<open>
  Of the request, the package reads header fields through \<^verbatim>\<open>Header.Get\<close>, and the
  User-Agent: \<open>Header r k\<close> is \<^verbatim>\<open>r.Header.Get(k)\<close>, the first value of the field or
  \<open>''''\<close>. Of the gin context it reads the request and the key/value store
  (\<^verbatim>\<open>c.Get\<close>).
\<close>

record Request =
  Header :: "string \<Rightarrow> string"

record Context =
  Request :: Request
  Keys :: "string \<rightharpoonup> any"

definition UserAgent :: "Request \<Rightarrow> string" where
  "UserAgent r = Header r ''User-Agent''"

text \<open>The failed type assertion \<^verbatim>\<open>traceID.(string)\<close> is a run-time panic.\<close>

datatype panic = TypeAssertion

section \<open>Operations\<close>

subsection \<open>lang\<close>

text \<open>
  The loop over the pieces of the User-Agent returns at the first piece that splits at
  \<^verbatim>\<open>=\<close> into exactly two parts, the first of them \<^verbatim>\<open>lang\<close>.
\<close>

fun lang_loop :: "string list \<Rightarrow> string option" where
  "lang_loop [] = None"
| "lang_loop (param # rest) =
     (let paramList = Split param CHR ''=''
      in if length paramList = 2 \<and> paramList ! 0 = ''lang'' then Some (paramList ! 1)
         else lang_loop rest)"

definition lang :: "Manager \<Rightarrow> Context \<Rightarrow> string" where
  "lang m c =
     (let headerLang = Header (Request c) ''lang''
      in if headerLang \<noteq> '''' then headerLang
         else (case lang_loop (Split (UserAgent (Request c)) CHR '';'') of
                 Some l \<Rightarrow> l
               | None \<Rightarrow> defaultLang (Option m)))"

subsection \<open>isDebugMode, SetLang\<close>

definition isDebugMode :: "Manager \<Rightarrow> Context \<Rightarrow> bool" where
  "isDebugMode m c =
     (if RunEnv m = ''prod'' then False
      else if debugMode (Option m) then True
      else if Header (Request c) ''debug'' \<noteq> '''' then True
      else False)"

definition SetLang :: "Manager \<Rightarrow> string \<Rightarrow> Manager" where
  "SetLang m l =
     (if l \<noteq> '''' then m\<lparr>Option := (Option m)\<lparr>defaultLang := l\<rparr>\<rparr> else m)"

subsection \<open>Trans\<close>

text \<open>
  \<open>langMap\<close> is the variable \<^verbatim>\<open>l\<close> of \<^verbatim>\<open>Trans\<close> after the fallback: the entry of
  \<open>lang\<close>, or else whatever \<^verbatim>\<open>m.LangList[m.Option.defaultLang]\<close> reads.
\<close>

definition langMap :: "Manager \<Rightarrow> string \<Rightarrow> (string \<rightharpoonup> string)" where
  "langMap m l =
     (case LangList m l of
        Some msgs \<Rightarrow> msgs
      | None \<Rightarrow>
          (case LangList m (defaultLang (Option m)) of
             Some msgs \<Rightarrow> msgs
           | None \<Rightarrow> Map.empty))"

definition Trans ::
  "(string \<Rightarrow> string list \<Rightarrow> string) \<Rightarrow> Manager \<Rightarrow> string \<Rightarrow> string \<Rightarrow> string list \<Rightarrow> string"
where
  "Trans Sprintf m l code params =
     (case langMap m l code of
        Some msg \<Rightarrow> (if length params > 0 then Sprintf msg params else msg)
      | None \<Rightarrow> code)"

subsection \<open>Count, Lang, LangExist\<close>

text \<open>
  \<^verbatim>\<open>len(m.LangList)\<close> is the number of keys. \<^verbatim>\<open>Lang\<close> ranges over the map; Go leaves
  the order of a range over a map open, so the order \<open>ks\<close> in which the range yields
  the keys is an argument, and \<open>Lang m ks\<close> is the list returned for that order.
  \<open>range_order (LangList m) ks\<close> says that \<open>ks\<close> is such an order: every key of the
  map, once.
\<close>

definition Count :: "Manager \<Rightarrow> nat" where
  "Count m = card (dom (LangList m))"

definition range_order :: "('k \<rightharpoonup> 'v) \<Rightarrow> 'k list \<Rightarrow> bool" where
  "range_order mp ks \<longleftrightarrow> distinct ks \<and> set ks = dom mp"

fun Lang_loop :: "string list \<Rightarrow> string list \<Rightarrow> string list" where
  "Lang_loop [] list = list"
| "Lang_loop (l # ls) list = Lang_loop ls (if l \<noteq> '''' then list @ [l] else list)"

definition Lang :: "Manager \<Rightarrow> string list \<Rightarrow> string list" where
  "Lang m ks = Lang_loop ks []"

definition LangExist :: "Manager \<Rightarrow> string \<Rightarrow> bool" where
  "LangExist m l = (case LangList m l of Some _ \<Rightarrow> True | None \<Rightarrow> False)"

subsection \<open>result\<close>

text \<open>
  The steps of \<^verbatim>\<open>result\<close> in the order of the source. \<open>split_data\<close> is the type
  switch: it gives the value for \<^verbatim>\<open>res.Data\<close> and \<^verbatim>\<open>tmplPrams\<close>, which stays nil in the
  default case. \<open>trace_step\<close> is the read of \<^verbatim>\<open>trace_id\<close> with its type assertion, and
  \<open>desc_step\<close> the last conditional.
\<close>

fun split_data :: "any \<Rightarrow> any \<times> string list" where
  "split_data (VData ps d) = (d, ps)"
| "split_data v = (v, [])"

definition trace_step :: "Context \<Rightarrow> result \<Rightarrow> panic + result" where
  "trace_step c res =
     (case Keys c ''trace_id'' of
        None \<Rightarrow> Inr res
      | Some traceID \<Rightarrow>
          (case traceID of
             VString s \<Rightarrow> Inr (res\<lparr>Trace := (Trace res)\<lparr>ID := s\<rparr>\<rparr>)
           | _ \<Rightarrow> Inl TypeAssertion))"

definition desc_step :: "Manager \<Rightarrow> Context \<Rightarrow> error \<Rightarrow> result \<Rightarrow> result" where
  "desc_step m c err res =
     (if isDebugMode m c \<and> err \<noteq> None
      then res\<lparr>Trace := (Trace res)\<lparr>Desc := Sprintf_v err\<rparr>\<rparr>
      else res)"

definition result ::
  "(string \<Rightarrow> string list \<Rightarrow> string) \<Rightarrow> Manager \<Rightarrow> Context \<Rightarrow> int \<Rightarrow> any \<Rightarrow> error
     \<Rightarrow> panic + result"
where
  "result Sprintf m c code data err =
     (let res = \<lparr>Code = code, Msg = '''', Trace = \<lparr>ID = '''', Desc = ''''\<rparr>, Data = VNil\<rparr>;
          (d, tmplPrams) = split_data data;
          res = res\<lparr>Data := d\<rparr>;
          res = res\<lparr>Msg := Trans Sprintf m (lang m c) (Itoa code) tmplPrams\<rparr>
      in (case trace_step c res of
            Inl p \<Rightarrow> Inl p
          | Inr res \<Rightarrow> Inr (desc_step m c err res)))"

subsection \<open>The earlier variant of lang\<close>

text \<open>
  The earlier version of the package (the envelope with \<^verbatim>\<open>status\<close>, \<^verbatim>\<open>desc\<close> and a flat
  \<^verbatim>\<open>trace\<close>) has the same \<^verbatim>\<open>Trans\<close>, \<^verbatim>\<open>isDebugMode\<close> and \<^verbatim>\<open>SetLang\<close>, and another loop in
  \<^verbatim>\<open>lang\<close>: it skips the pieces without \<^verbatim>\<open>=\<close>, takes the keys \<^verbatim>\<open>lang\<close> and \<^verbatim>\<open>Lang\<close>, reads
  the second part whatever follows it, and goes on to the end, so the last piece wins.
  A piece that contains \<^verbatim>\<open>=\<close> splits into two parts at least.
\<close>

fun lang_loop_v0 :: "string list \<Rightarrow> string \<Rightarrow> string" where
  "lang_loop_v0 [] cur = cur"
| "lang_loop_v0 (param # rest) cur =
     (if CHR ''='' \<notin> set param then lang_loop_v0 rest cur
      else (let paramList = Split param CHR ''=''
            in if paramList ! 0 = ''lang'' \<or> paramList ! 0 = ''Lang''
               then lang_loop_v0 rest (paramList ! 1)
               else lang_loop_v0 rest cur))"

definition lang_v0 :: "Manager \<Rightarrow> Context \<Rightarrow> string" where
  "lang_v0 m c =
     (let cur = defaultLang (Option m);
          headerLang = Header (Request c) ''lang''
      in if headerLang \<noteq> '''' then headerLang
         else lang_loop_v0 (Split (UserAgent (Request c)) CHR '';'') cur)"

section \<open>Vocabulary of the specification\<close>

text \<open>
  A piece of the User-Agent is a \<^verbatim>\<open>lang=value\<close> token with value \<open>v\<close> when it is
  \<^verbatim>\<open>lang=\<close> followed by \<open>v\<close>, and \<open>v\<close> holds no further \<^verbatim>\<open>=\<close>.
\<close>

definition lang_token :: "string \<Rightarrow> string \<Rightarrow> bool" where
  "lang_token t v \<longleftrightarrow> t = ''lang='' @ v \<and> CHR ''='' \<notin> set v"

text \<open>
  The tokens of the earlier variant: a piece that begins with \<^verbatim>\<open>lang=\<close> or \<^verbatim>\<open>Lang=\<close>; its
  value is what follows, up to the next \<^verbatim>\<open>=\<close> if there is one.
\<close>

definition lang_token_v0 :: "string \<Rightarrow> string \<Rightarrow> bool" where
  "lang_token_v0 t v \<longleftrightarrow>
     (take 5 t = ''lang='' \<or> take 5 t = ''Lang='') \<and>
     v = takeWhile (\<lambda>x. x \<noteq> CHR ''='') (drop 5 t)"

section \<open>Example data\<close>

text \<open>
  The catalog of the specification's scenarios, the options \<^verbatim>\<open>New\<close> starts from, and
  requests with and without the headers the package reads.
\<close>

definition catalog_en :: "string \<rightharpoonup> string" where
  "catalog_en = [''0'' \<mapsto> ''ok'', ''1000'' \<mapsto> ''Hello,%s! Your id is:%s'']"

definition default_options :: options where
  "default_options =
     \<lparr>langDir = ''./lang'', defaultLang = ''en-US'', envKey = ''RUN_MODE'', debugMode = False\<rparr>"

definition manager_en :: Manager where
  "manager_en = \<lparr>LangList = [''en-US'' \<mapsto> catalog_en], Option = default_options, RunEnv = ''''\<rparr>"

definition manager_empty_en :: Manager where
  "manager_empty_en =
     \<lparr>LangList = [''en-US'' \<mapsto> Map.empty], Option = default_options, RunEnv = ''''\<rparr>"

definition manager_prod :: Manager where
  "manager_prod =
     \<lparr>LangList = [''en-US'' \<mapsto> catalog_en],
      Option = default_options\<lparr>debugMode := True\<rparr>,
      RunEnv = ''prod''\<rparr>"

definition manager_debug :: Manager where
  "manager_debug =
     \<lparr>LangList = [''en-US'' \<mapsto> catalog_en],
      Option = default_options\<lparr>debugMode := True\<rparr>,
      RunEnv = ''dev''\<rparr>"

definition manager_unnamed :: Manager where
  "manager_unnamed =
     \<lparr>LangList = ['''' \<mapsto> Map.empty, ''en-US'' \<mapsto> catalog_en],
      Option = default_options, RunEnv = ''''\<rparr>"

definition request_of :: "(string \<times> string) list \<Rightarrow> Request" where
  "request_of hs = \<lparr>Header = (\<lambda>k. case map_of hs k of Some v \<Rightarrow> v | None \<Rightarrow> '''')\<rparr>"

definition context_plain :: Context where
  "context_plain = \<lparr>Request = request_of [], Keys = Map.empty\<rparr>"

definition context_header :: Context where
  "context_header =
     \<lparr>Request = request_of [(''lang'', ''zh-CN''), (''User-Agent'', ''app/1.0;lang=fr-FR'')],
      Keys = Map.empty\<rparr>"

definition context_agent :: Context where
  "context_agent =
     \<lparr>Request = request_of [(''User-Agent'', ''app/1.0;lang=fr-FR;lang=de-DE'')],
      Keys = Map.empty\<rparr>"

definition context_debug :: Context where
  "context_debug = \<lparr>Request = request_of [(''debug'', ''1'')], Keys = Map.empty\<rparr>"

definition context_traced :: Context where
  "context_traced =
     \<lparr>Request = request_of [], Keys = [''trace_id'' \<mapsto> VString ''1213gsgdfd'']\<rparr>"

definition context_Lang :: Context where
  "context_Lang =
     \<lparr>Request = request_of [(''User-Agent'', ''Lang=fr-FR'')], Keys = Map.empty\<rparr>"

definition manager_empty_code :: Manager where
  "manager_empty_code =
     \<lparr>LangList = [''en-US'' \<mapsto> ['''' \<mapsto> ''hello'']], Option = default_options, RunEnv = ''''\<rparr>"

definition context_bad_trace :: Context where
  "context_bad_trace = \<lparr>Request = request_of [], Keys = [''trace_id'' \<mapsto> VInt 42]\<rparr>"

section \<open>Facts about the library functions\<close>

text \<open>
  \<open>Split\<close> is the inverse of \<open>Join\<close>: joining the pieces gives the string back, no
  piece holds the separator, and there is one piece more than separators.
\<close>

lemma Split_not_Nil: "Split s sep \<noteq> []"
  by (induction s) (auto split: list.splits)

lemma Join_Cons_Cons: "Join ((x # w) # ws) sep = x # Join (w # ws) sep"
  by (cases ws) simp_all

lemma Join_Nil_Cons: "ws \<noteq> [] \<Longrightarrow> Join ([] # ws) sep = sep # Join ws sep"
  by (cases ws) simp_all

lemma Join_Split: "Join (Split s sep) sep = s"
  by (induction s)
    (auto split: list.splits simp: Split_not_Nil Join_Cons_Cons Join_Nil_Cons)

lemma length_Split: "length (Split s sep) = Suc (count_list s sep)"
  by (induction s) (auto split: list.splits simp: Split_not_Nil)

lemma Split_pieces: "w \<in> set (Split s sep) \<Longrightarrow> sep \<notin> set w"
  by (induction s arbitrary: w) (auto split: list.splits if_splits simp: Split_not_Nil)

lemma Split_no_sep: "sep \<notin> set s \<Longrightarrow> Split s sep = [s]"
  by (induction s) auto

lemma Split_append_sep: "sep \<notin> set k \<Longrightarrow> Split (k @ sep # r) sep = k # Split r sep"
  by (induction k) (auto split: list.splits simp: Split_not_Nil)

lemma Split_pair_iff:
  "Split t sep = [k, v] \<longleftrightarrow> t = k @ sep # v \<and> sep \<notin> set k \<and> sep \<notin> set v"
proof
  assume two: "Split t sep = [k, v]"
  have "Join (Split t sep) sep = t"
    by (rule Join_Split)
  with two have t: "t = k @ sep # v"
    by simp
  have "k \<in> set (Split t sep)" and "v \<in> set (Split t sep)"
    using two by simp_all
  then have "sep \<notin> set k" and "sep \<notin> set v"
    by (auto dest: Split_pieces)
  with t show "t = k @ sep # v \<and> sep \<notin> set k \<and> sep \<notin> set v"
    by simp
next
  assume "t = k @ sep # v \<and> sep \<notin> set k \<and> sep \<notin> set v"
  then show "Split t sep = [k, v]"
    by (simp add: Split_append_sep Split_no_sep)
qed

lemma Itoa_examples:
  "Itoa 0 = ''0''" "Itoa 404 = ''404''" "Itoa 1000 = ''1000''" "Itoa (- 1) = ''-1''"
  by (simp_all add: Itoa_def digit_char_def)

lemma Sprintf_s_examples:
  "Sprintf_s ''Hello,%s! Your id is:%s'' [''Seakee'', ''18888888888'']
     = ''Hello,Seakee! Your id is:18888888888''"
  "Sprintf_s ''ok'' [''x''] = ''ok%!(EXTRA string=x)''"
  "Sprintf_s ''%s and %s'' [''x''] = ''x and %!s(MISSING)''"
  "Sprintf_s ''%s'' [''''] = ''''"
  by simp_all

section \<open>Message resolution\<close>

text \<open>
  C1. A language that is not a key of \<open>LangList\<close> is translated as the configured
  default language is: for every Manager, every such language, every code and every
  parameter list, \<open>Trans\<close> returns the string it returns for the default language.
  \<open>Trans\<close> is the same function in both versions of the package.
\<close>

theorem Trans_fallback_default:
  "LangList m l = None \<Longrightarrow>
   Trans Sprintf m l code params = Trans Sprintf m (defaultLang (Option m)) code params"
  by (simp add: Trans_def langMap_def split: option.splits)

text \<open>
  Scenario B of the specification: the catalog has \<^verbatim>\<open>en-US\<close> only, which is the
  default language, and \<^verbatim>\<open>fr-FR\<close> resolves code \<^verbatim>\<open>0\<close> to \<^verbatim>\<open>ok\<close>.
\<close>

theorem Trans_fallback_default_witness:
  "LangList manager_en ''fr-FR'' = None \<and>
   Trans Sprintf_s manager_en ''fr-FR'' ''0'' [] =
     Trans Sprintf_s manager_en (defaultLang (Option manager_en)) ''0'' [] \<and>
   Trans Sprintf_s manager_en ''fr-FR'' ''0'' [] = ''ok''"
proof -
  have absent: "LangList manager_en ''fr-FR'' = None"
    by (simp add: manager_en_def)
  have "Trans Sprintf_s manager_en ''en-US'' ''0'' [] = ''ok''"
    by (simp add: Trans_def langMap_def manager_en_def catalog_en_def)
  then show ?thesis
    using absent Trans_fallback_default [OF absent, of Sprintf_s "''0''" "[]"]
    by (simp add: manager_en_def default_options_def)
qed

text \<open>
  C2. When the mapping resolved for the language (the catalog entry of the language
  if there is one, else the entry of the default language if there is one, else the
  empty mapping) has no entry for the code, \<open>Trans\<close> returns the code unchanged, whatever
  the parameters.
\<close>

theorem Trans_code_not_found:
  "(case LangList m l of
      Some msgs \<Rightarrow> msgs code
    | None \<Rightarrow>
        (case LangList m (defaultLang (Option m)) of
           Some msgs \<Rightarrow> msgs code
         | None \<Rightarrow> None)) = None \<Longrightarrow>
   Trans Sprintf m l code params = code"
  by (simp add: Trans_def langMap_def split: option.splits)

text \<open>
  Scenario C of the specification, and the same code asked for in a language that
  falls back to the default, with parameters.
\<close>

theorem Trans_code_not_found_witness:
  "Trans Sprintf_s manager_empty_en ''en-US'' ''404'' [] = ''404'' \<and>
   Trans Sprintf_s manager_empty_en ''fr-FR'' ''404'' [''x''] = ''404''"
  using
    Trans_code_not_found [where m = manager_empty_en and l = "''en-US''" and code = "''404''"
      and Sprintf = Sprintf_s and params = "[]"]
    Trans_code_not_found [where m = manager_empty_en and l = "''fr-FR''" and code = "''404''"
      and Sprintf = Sprintf_s and params = "[''x'']"]
  by (simp add: manager_empty_en_def default_options_def)

text \<open>
  C5, as amended. \<open>Trans\<close> returns a non-empty string exactly in these cases: the
  resolved mapping holds a template for the code and the template as \<open>Trans\<close> returns
  it (verbatim without parameters, formatted with them) is non-empty; or it holds none
  and the code is non-empty. When no template is found, the code itself is returned
  as the message.

  As stated (a non-empty string for every language, code and parameter list) the
  claim fails: a code with no template comes back unchanged, so the empty code gives
  the empty string. A template stored as the empty string, and a template such as
  \<^verbatim>\<open>%s\<close> formatted with an empty parameter, give it too.
\<close>

theorem Trans_nonempty:
  "(Trans Sprintf m l code params \<noteq> '''' \<longleftrightarrow>
      (case langMap m l code of
         Some msg \<Rightarrow> (if params = [] then msg else Sprintf msg params) \<noteq> ''''
       | None \<Rightarrow> code \<noteq> '''')) \<and>
   (langMap m l code = None \<longrightarrow> Trans Sprintf m l code params = code)"
  by (simp add: Trans_def split: option.splits)

theorem Trans_nonempty_counterexample:
  "Trans Sprintf_s manager_en ''en-US'' '''' [] = ''''"
  by (simp add: Trans_def langMap_def manager_en_def catalog_en_def)

text \<open>
  Scenario A of the specification read through the fallback, a code without a
  template, and an empty code that has a template.
\<close>

theorem Trans_nonempty_witness:
  "langMap manager_en ''fr-FR'' ''1000'' = Some ''Hello,%s! Your id is:%s'' \<and>
   Sprintf_s ''Hello,%s! Your id is:%s'' [''Seakee'', ''18888888888''] \<noteq> '''' \<and>
   Trans Sprintf_s manager_en ''fr-FR'' ''1000'' [''Seakee'', ''18888888888''] \<noteq> '''' \<and>
   langMap manager_en ''en-US'' ''404'' = None \<and>
   Trans Sprintf_s manager_en ''en-US'' ''404'' [] = ''404'' \<and>
   Trans Sprintf_s manager_en ''en-US'' ''404'' [] \<noteq> '''' \<and>
   langMap manager_empty_code ''en-US'' '''' = Some ''hello'' \<and>
   Trans Sprintf_s manager_empty_code ''en-US'' '''' [] \<noteq> '''' \<and>
   langMap manager_en ''en-US'' '''' = None \<and>
   Trans Sprintf_s manager_en ''en-US'' '''' [] = ''''"
proof -
  have m1: "langMap manager_en ''fr-FR'' ''1000'' = Some ''Hello,%s! Your id is:%s''"
    by (simp add: langMap_def manager_en_def default_options_def catalog_en_def)
  have f1: "Sprintf_s ''Hello,%s! Your id is:%s'' [''Seakee'', ''18888888888''] \<noteq> ''''"
    by simp
  have m2: "langMap manager_en ''en-US'' ''404'' = None"
    by (simp add: langMap_def manager_en_def catalog_en_def)
  have m3: "langMap manager_empty_code ''en-US'' '''' = Some ''hello''"
    by (simp add: langMap_def manager_empty_code_def)
  have m4: "langMap manager_en ''en-US'' '''' = None"
    by (simp add: langMap_def manager_en_def catalog_en_def)
  from Trans_nonempty [of Sprintf_s manager_en "''fr-FR''" "''1000''"
      "[''Seakee'', ''18888888888'']"] m1 f1
  have n1: "Trans Sprintf_s manager_en ''fr-FR'' ''1000'' [''Seakee'', ''18888888888''] \<noteq> ''''"
    by simp
  from Trans_nonempty [of Sprintf_s manager_en "''en-US''" "''404''" "[]"] m2
  have n2: "Trans Sprintf_s manager_en ''en-US'' ''404'' [] = ''404''"
    and n2': "Trans Sprintf_s manager_en ''en-US'' ''404'' [] \<noteq> ''''"
    by simp_all
  from Trans_nonempty [of Sprintf_s manager_empty_code "''en-US''" "''''" "[]"] m3
  have n3: "Trans Sprintf_s manager_empty_code ''en-US'' '''' [] \<noteq> ''''"
    by simp
  from Trans_nonempty [of Sprintf_s manager_en "''en-US''" "''''" "[]"] m4
  have n4: "Trans Sprintf_s manager_en ''en-US'' '''' [] = ''''"
    by simp
  from m1 f1 n1 m2 n2 n2' m3 n3 m4 n4 show ?thesis
    by blast
qed

lemma Trans_empty_examples:
  "Trans Sprintf_s (manager_en\<lparr>LangList := [''en-US'' \<mapsto> [''0'' \<mapsto> '''']]\<rparr>) ''en-US'' ''0'' [] = ''''"
  "Trans Sprintf_s (manager_en\<lparr>LangList := [''en-US'' \<mapsto> [''0'' \<mapsto> ''%s'']]\<rparr>) ''en-US'' ''0'' ['''']
     = ''''"
  by (simp_all add: Trans_def langMap_def manager_en_def)

section \<open>Debug gating\<close>

text \<open>
  C3. With the run environment \<^verbatim>\<open>prod\<close>, \<open>isDebugMode\<close> is false for every request,
  whatever the configured \<open>debugMode\<close> flag and whatever the \<^verbatim>\<open>debug\<close> header. The
  function is the same in both versions of the package.
\<close>

theorem isDebugMode_prod: "RunEnv m = ''prod'' \<Longrightarrow> isDebugMode m c = False"
  by (simp add: isDebugMode_def)

text \<open>
  Scenario E of the specification: environment \<^verbatim>\<open>prod\<close>, the static flag set and the
  \<^verbatim>\<open>debug\<close> header present. Outside \<^verbatim>\<open>prod\<close> the same flag and the same header each
  switch debugging on.
\<close>

theorem isDebugMode_prod_witness:
  "RunEnv manager_prod = ''prod'' \<and> debugMode (Option manager_prod) \<and>
   Header (Request context_debug) ''debug'' \<noteq> '''' \<and>
   isDebugMode manager_prod context_debug = False"
  using isDebugMode_prod [of manager_prod context_debug]
  by (simp add: manager_prod_def default_options_def context_debug_def request_of_def)

lemma isDebugMode_examples:
  "isDebugMode manager_debug context_plain"
  "isDebugMode manager_en context_debug"
  "\<not> isDebugMode manager_en context_plain"
  by (simp_all add: isDebugMode_def manager_debug_def manager_en_def default_options_def
      context_plain_def context_debug_def request_of_def)

section \<open>Language selection\<close>

text \<open>
  The test of the loop, that the piece splits at \<^verbatim>\<open>=\<close> into two parts with the first
  \<^verbatim>\<open>lang\<close>, holds of the \<^verbatim>\<open>lang=value\<close> tokens and of nothing else, and the second part
  is the value.
\<close>

lemma lang_token_Split: "lang_token t v \<longleftrightarrow> Split t CHR ''='' = [''lang'', v]"
  by (simp add: lang_token_def Split_pair_iff)

lemma lang_param_test:
  "length (Split p CHR ''='') = 2 \<and> Split p CHR ''='' ! 0 = ''lang''
     \<longleftrightarrow> (\<exists>v. lang_token p v)"
proof
  assume h: "length (Split p CHR ''='') = 2 \<and> Split p CHR ''='' ! 0 = ''lang''"
  then obtain a b where ab: "Split p CHR ''='' = [a, b]"
    by (cases "Split p CHR ''=''" rule: list.exhaust) (auto simp: length_Suc_conv)
  with h have "a = ''lang''" by simp
  with ab show "\<exists>v. lang_token p v" by (auto simp: lang_token_Split)
next
  assume "\<exists>v. lang_token p v"
  then show "length (Split p CHR ''='') = 2 \<and> Split p CHR ''='' ! 0 = ''lang''"
    by (auto simp: lang_token_Split)
qed

lemma lang_param_value: "lang_token p v \<Longrightarrow> Split p CHR ''='' ! 1 = v"
  by (simp add: lang_token_Split)

lemma lang_loop_None:
  "lang_loop ts = None \<longleftrightarrow> (\<forall>t \<in> set ts. \<nexists>v. lang_token t v)"
proof (induction ts)
  case Nil
  show ?case by simp
next
  case (Cons t ts)
  show ?case
  proof (cases "\<exists>v. lang_token t v")
    case True
    then have "length (Split t CHR ''='') = 2 \<and> Split t CHR ''='' ! 0 = ''lang''"
      by (simp only: lang_param_test)
    then have "lang_loop (t # ts) \<noteq> None" by (simp add: Let_def)
    with True show ?thesis by auto
  next
    case False
    then have "\<not> (length (Split t CHR ''='') = 2 \<and> Split t CHR ''='' ! 0 = ''lang'')"
      by (simp only: lang_param_test not_False_eq_True)
    then have "lang_loop (t # ts) = lang_loop ts" by (auto simp add: Let_def)
    with False Cons.IH show ?thesis by auto
  qed
qed

lemma lang_loop_first:
  assumes "\<forall>u \<in> set ts1. \<nexists>w. lang_token u w" and "lang_token t v"
  shows "lang_loop (ts1 @ t # ts2) = Some v"
  using assms
proof (induction ts1)
  case Nil
  then have "length (Split t CHR ''='') = 2 \<and> Split t CHR ''='' ! 0 = ''lang''"
    using lang_param_test by blast
  moreover have "Split t CHR ''='' ! 1 = v" using Nil.prems(2) by (rule lang_param_value)
  ultimately show ?case by (simp add: Let_def)
next
  case (Cons u us)
  then have "\<not> (length (Split u CHR ''='') = 2 \<and> Split u CHR ''='' ! 0 = ''lang'')"
    using lang_param_test by (metis list.set_intros(1))
  then have "lang_loop ((u # us) @ t # ts2) = lang_loop (us @ t # ts2)"
    by (auto simp add: Let_def)
  with Cons show ?case by simp
qed

text \<open>
  The three levels of the current version: the header, the first \<^verbatim>\<open>lang=value\<close> token
  of the User-Agent, the default language.
\<close>

lemma lang_precedence:
  "(Header (Request c) ''lang'' \<noteq> '''' \<longrightarrow> lang m c = Header (Request c) ''lang'') \<and>
   (Header (Request c) ''lang'' = '''' \<longrightarrow>
      (\<forall>ts1 t ts2 v.
          Split (UserAgent (Request c)) CHR '';'' = ts1 @ t # ts2 \<and>
          (\<forall>u \<in> set ts1. \<nexists>w. lang_token u w) \<and> lang_token t v
          \<longrightarrow> lang m c = v) \<and>
      ((\<forall>t \<in> set (Split (UserAgent (Request c)) CHR '';''). \<nexists>v. lang_token t v)
          \<longrightarrow> lang m c = defaultLang (Option m)))"
proof (intro conjI impI allI)
  assume "Header (Request c) ''lang'' \<noteq> ''''"
  then show "lang m c = Header (Request c) ''lang''"
    by (simp add: lang_def)
next
  fix ts1 t ts2 v
  assume none: "Header (Request c) ''lang'' = ''''"
    and tok: "Split (UserAgent (Request c)) CHR '';'' = ts1 @ t # ts2 \<and>
      (\<forall>u \<in> set ts1. \<nexists>w. lang_token u w) \<and> lang_token t v"
  then have "lang_loop (Split (UserAgent (Request c)) CHR '';'') = Some v"
    by (simp add: lang_loop_first)
  with none show "lang m c = v"
    by (simp add: lang_def)
next
  assume none: "Header (Request c) ''lang'' = ''''"
    and "\<forall>t \<in> set (Split (UserAgent (Request c)) CHR '';''). \<nexists>v. lang_token t v"
  then have "lang_loop (Split (UserAgent (Request c)) CHR '';'') = None"
    by (simp only: lang_loop_None)
  with none show "lang m c = defaultLang (Option m)"
    by (simp add: lang_def)
qed

text \<open>
  The earlier version. The test of its loop, that the piece holds \<^verbatim>\<open>=\<close> and its first
  part is \<^verbatim>\<open>lang\<close> or \<^verbatim>\<open>Lang\<close>, holds of the pieces that begin with \<^verbatim>\<open>lang=\<close> or
  \<^verbatim>\<open>Lang=\<close> and of nothing else, and the second part is what follows up to the next
  \<^verbatim>\<open>=\<close>. Every token overwrites the language, so the last one wins.
\<close>

lemma hd_Split: "hd (Split s sep) = takeWhile (\<lambda>x. x \<noteq> sep) s"
  by (induction s) (auto split: list.splits simp: Split_not_Nil)

lemma Split_key_value:
  "sep \<notin> set k \<Longrightarrow>
   Split (k @ sep # r) sep ! 0 = k \<and>
   Split (k @ sep # r) sep ! 1 = takeWhile (\<lambda>x. x \<noteq> sep) r"
proof -
  assume "sep \<notin> set k"
  then have "Split (k @ sep # r) sep = k # Split r sep"
    by (rule Split_append_sep)
  moreover have "Split r sep ! 0 = hd (Split r sep)"
    by (simp add: hd_conv_nth Split_not_Nil)
  ultimately show ?thesis
    by (simp add: hd_Split)
qed

lemma take5_decompose:
  "take 5 p = k @ [CHR ''=''] \<Longrightarrow> length k = 4 \<Longrightarrow> p = k @ CHR ''='' # drop 5 p"
proof -
  assume "take 5 p = k @ [CHR ''='']" and "length k = 4"
  have "p = take 5 p @ drop 5 p"
    by simp
  with \<open>take 5 p = k @ [CHR ''='']\<close> show ?thesis
    by (metis append.assoc append_Cons append_Nil)
qed

lemma lang_v0_test:
  "CHR ''='' \<in> set p \<and>
     (Split p CHR ''='' ! 0 = ''lang'' \<or> Split p CHR ''='' ! 0 = ''Lang'')
   \<longleftrightarrow> (\<exists>v. lang_token_v0 p v)"
proof
  assume h: "CHR ''='' \<in> set p \<and>
     (Split p CHR ''='' ! 0 = ''lang'' \<or> Split p CHR ''='' ! 0 = ''Lang'')"
  then obtain ys zs where p: "p = ys @ CHR ''='' # zs" and ys: "CHR ''='' \<notin> set ys"
    by (meson split_list_first)
  from ys have "Split (ys @ CHR ''='' # zs) CHR ''='' ! 0 = ys"
    by (simp add: Split_key_value)
  with h p have "ys = ''lang'' \<or> ys = ''Lang''"
    by simp
  with p have "take 5 p = ''lang='' \<or> take 5 p = ''Lang=''"
    by auto
  then show "\<exists>v. lang_token_v0 p v"
    by (simp add: lang_token_v0_def)
next
  assume "\<exists>v. lang_token_v0 p v"
  then have "take 5 p = ''lang='' \<or> take 5 p = ''Lang=''"
    by (simp add: lang_token_v0_def)
  then have "p = ''lang'' @ CHR ''='' # drop 5 p \<or> p = ''Lang'' @ CHR ''='' # drop 5 p"
    using take5_decompose [of p "''lang''"] take5_decompose [of p "''Lang''"] by auto
  then show "CHR ''='' \<in> set p \<and>
     (Split p CHR ''='' ! 0 = ''lang'' \<or> Split p CHR ''='' ! 0 = ''Lang'')"
  proof
    assume e: "p = ''lang'' @ CHR ''='' # drop 5 p"
    have "Split (''lang'' @ CHR ''='' # drop 5 p) CHR ''='' ! 0 = ''lang''"
      by (rule Split_key_value [THEN conjunct1]) simp
    with e have "Split p CHR ''='' ! 0 = ''lang''" by simp
    moreover from e have "CHR ''='' \<in> set p" by (metis in_set_conv_decomp)
    ultimately show ?thesis by simp
  next
    assume e: "p = ''Lang'' @ CHR ''='' # drop 5 p"
    have "Split (''Lang'' @ CHR ''='' # drop 5 p) CHR ''='' ! 0 = ''Lang''"
      by (rule Split_key_value [THEN conjunct1]) simp
    with e have "Split p CHR ''='' ! 0 = ''Lang''" by simp
    moreover from e have "CHR ''='' \<in> set p" by (metis in_set_conv_decomp)
    ultimately show ?thesis by simp
  qed
qed

lemma lang_v0_value: "lang_token_v0 p v \<Longrightarrow> Split p CHR ''='' ! 1 = v"
proof -
  assume t: "lang_token_v0 p v"
  then have v: "v = takeWhile (\<lambda>x. x \<noteq> CHR ''='') (drop 5 p)"
    and "take 5 p = ''lang='' \<or> take 5 p = ''Lang=''"
    by (simp_all add: lang_token_v0_def)
  then have "p = ''lang'' @ CHR ''='' # drop 5 p \<or> p = ''Lang'' @ CHR ''='' # drop 5 p"
    using take5_decompose [of p "''lang''"] take5_decompose [of p "''Lang''"] by auto
  then show ?thesis
  proof
    assume e: "p = ''lang'' @ CHR ''='' # drop 5 p"
    have "Split (''lang'' @ CHR ''='' # drop 5 p) CHR ''='' ! 1 =
        takeWhile (\<lambda>x. x \<noteq> CHR ''='') (drop 5 p)"
      by (rule Split_key_value [THEN conjunct2]) simp
    with e v show ?thesis by simp
  next
    assume e: "p = ''Lang'' @ CHR ''='' # drop 5 p"
    have "Split (''Lang'' @ CHR ''='' # drop 5 p) CHR ''='' ! 1 =
        takeWhile (\<lambda>x. x \<noteq> CHR ''='') (drop 5 p)"
      by (rule Split_key_value [THEN conjunct2]) simp
    with e v show ?thesis by simp
  qed
qed

lemma lang_loop_v0_token: "lang_token_v0 t v \<Longrightarrow> lang_loop_v0 (t # ts) cur = lang_loop_v0 ts v"
proof -
  assume t: "lang_token_v0 t v"
  then have "CHR ''='' \<in> set t \<and>
     (Split t CHR ''='' ! 0 = ''lang'' \<or> Split t CHR ''='' ! 0 = ''Lang'')"
    using lang_v0_test by blast
  moreover have "Split t CHR ''='' ! 1 = v"
    using t by (rule lang_v0_value)
  ultimately show ?thesis
    by (simp add: Let_def)
qed

lemma lang_loop_v0_other:
  "\<nexists>w. lang_token_v0 t w \<Longrightarrow> lang_loop_v0 (t # ts) cur = lang_loop_v0 ts cur"
proof -
  assume "\<nexists>w. lang_token_v0 t w"
  then have "\<not> (CHR ''='' \<in> set t \<and>
     (Split t CHR ''='' ! 0 = ''lang'' \<or> Split t CHR ''='' ! 0 = ''Lang''))"
    by (simp only: lang_v0_test not_False_eq_True)
  then show ?thesis
    by (auto simp add: Let_def)
qed

lemma lang_loop_v0_none:
  "\<forall>t \<in> set ts. \<nexists>w. lang_token_v0 t w \<Longrightarrow> lang_loop_v0 ts cur = cur"
  by (induction ts) (simp_all add: lang_loop_v0_other del: lang_loop_v0.simps(2))

lemma lang_loop_v0_last:
  assumes "lang_token_v0 t v" and "\<forall>u \<in> set ts2. \<nexists>w. lang_token_v0 u w"
  shows "lang_loop_v0 (ts1 @ t # ts2) cur = v"
proof (induction ts1 arbitrary: cur)
  case Nil
  from assms show ?case
    by (simp add: lang_loop_v0_token lang_loop_v0_none del: lang_loop_v0.simps(2))
next
  case (Cons u us)
  show ?case
  proof (cases "\<exists>w. lang_token_v0 u w")
    case True
    then obtain w where "lang_token_v0 u w" by blast
    then have "lang_loop_v0 ((u # us) @ t # ts2) cur = lang_loop_v0 (us @ t # ts2) w"
      by (simp add: lang_loop_v0_token del: lang_loop_v0.simps(2))
    with Cons.IH show ?thesis by simp
  next
    case False
    then have "lang_loop_v0 ((u # us) @ t # ts2) cur = lang_loop_v0 (us @ t # ts2) cur"
      by (simp add: lang_loop_v0_other del: lang_loop_v0.simps(2))
    with Cons.IH show ?thesis by simp
  qed
qed

lemma lang_v0_precedence:
  "(Header (Request c) ''lang'' \<noteq> '''' \<longrightarrow> lang_v0 m c = Header (Request c) ''lang'') \<and>
   (Header (Request c) ''lang'' = '''' \<longrightarrow>
      (\<forall>ts1 t ts2 v.
          Split (UserAgent (Request c)) CHR '';'' = ts1 @ t # ts2 \<and>
          lang_token_v0 t v \<and> (\<forall>u \<in> set ts2. \<nexists>w. lang_token_v0 u w)
          \<longrightarrow> lang_v0 m c = v) \<and>
      ((\<forall>t \<in> set (Split (UserAgent (Request c)) CHR '';''). \<nexists>v. lang_token_v0 t v)
          \<longrightarrow> lang_v0 m c = defaultLang (Option m)))"
proof (intro conjI impI allI)
  assume "Header (Request c) ''lang'' \<noteq> ''''"
  then show "lang_v0 m c = Header (Request c) ''lang''"
    by (simp add: lang_v0_def)
next
  fix ts1 t ts2 v
  assume none: "Header (Request c) ''lang'' = ''''"
    and tok: "Split (UserAgent (Request c)) CHR '';'' = ts1 @ t # ts2 \<and>
      lang_token_v0 t v \<and> (\<forall>u \<in> set ts2. \<nexists>w. lang_token_v0 u w)"
  then have "lang_loop_v0 (Split (UserAgent (Request c)) CHR '';'') (defaultLang (Option m)) = v"
    by (simp add: lang_loop_v0_last)
  with none show "lang_v0 m c = v"
    by (simp add: lang_v0_def)
next
  assume none: "Header (Request c) ''lang'' = ''''"
    and "\<forall>t \<in> set (Split (UserAgent (Request c)) CHR '';''). \<nexists>v. lang_token_v0 t v"
  then have "lang_loop_v0 (Split (UserAgent (Request c)) CHR '';'') (defaultLang (Option m))
      = defaultLang (Option m)"
    by (simp add: lang_loop_v0_none)
  with none show "lang_v0 m c = defaultLang (Option m)"
    by (simp add: lang_v0_def)
qed

text \<open>
  C6, as amended. In the current version of \<^verbatim>\<open>lang\<close>, language selection has three
  levels and the first that applies wins: a non-empty \<^verbatim>\<open>lang\<close> header is returned as it
  is, whether or not the catalog has it; otherwise, when a piece of the User-Agent
  (split at \<^verbatim>\<open>;\<close>, each piece split at \<^verbatim>\<open>=\<close>) is a \<^verbatim>\<open>lang=value\<close> token, the value of the
  first such piece is returned; otherwise the configured default language is returned.
  In the earlier version of \<^verbatim>\<open>lang\<close> the header and the default are the same, and at
  the second level a token is a piece that begins with \<^verbatim>\<open>lang=\<close> or \<^verbatim>\<open>Lang=\<close>, its value is
  what follows up to the next \<^verbatim>\<open>=\<close>, and the value of the last such piece is returned.

  As stated, of both versions, the claim fails on the earlier one: with no header
  and the User-Agent \<^verbatim>\<open>Lang=fr-FR\<close>, which holds no \<^verbatim>\<open>lang=value\<close> token, it returns
  \<^verbatim>\<open>fr-FR\<close> and not the default language.
\<close>

theorem lang_selection:
  "((Header (Request c) ''lang'' \<noteq> '''' \<longrightarrow> lang m c = Header (Request c) ''lang'') \<and>
    (Header (Request c) ''lang'' = '''' \<longrightarrow>
       (\<forall>ts1 t ts2 v.
           Split (UserAgent (Request c)) CHR '';'' = ts1 @ t # ts2 \<and>
           (\<forall>u \<in> set ts1. \<nexists>w. lang_token u w) \<and> lang_token t v
           \<longrightarrow> lang m c = v) \<and>
       ((\<forall>t \<in> set (Split (UserAgent (Request c)) CHR '';''). \<nexists>v. lang_token t v)
           \<longrightarrow> lang m c = defaultLang (Option m)))) \<and>
   ((Header (Request c) ''lang'' \<noteq> '''' \<longrightarrow> lang_v0 m c = Header (Request c) ''lang'') \<and>
    (Header (Request c) ''lang'' = '''' \<longrightarrow>
       (\<forall>ts1 t ts2 v.
           Split (UserAgent (Request c)) CHR '';'' = ts1 @ t # ts2 \<and>
           lang_token_v0 t v \<and> (\<forall>u \<in> set ts2. \<nexists>w. lang_token_v0 u w)
           \<longrightarrow> lang_v0 m c = v) \<and>
       ((\<forall>t \<in> set (Split (UserAgent (Request c)) CHR '';''). \<nexists>v. lang_token_v0 t v)
           \<longrightarrow> lang_v0 m c = defaultLang (Option m))))"
  by (rule conjI [OF lang_precedence lang_v0_precedence])

theorem lang_v0_counterexample:
  "Header (Request context_Lang) ''lang'' = '''' \<and>
   Split (UserAgent (Request context_Lang)) CHR '';'' = [''Lang=fr-FR''] \<and>
   (\<nexists>v. lang_token ''Lang=fr-FR'' v) \<and>
   defaultLang (Option manager_en) = ''en-US'' \<and>
   lang_v0 manager_en context_Lang = ''fr-FR''"
  by (simp add: lang_v0_def lang_token_def context_Lang_def request_of_def UserAgent_def
      manager_en_def default_options_def)

text \<open>
  One request for each level: a header that wins over the User-Agent, a User-Agent
  with two tokens and no header, where the current version returns the first and the
  earlier version the last, and a request with neither.
\<close>

theorem lang_selection_witness:
  "Header (Request context_header) ''lang'' = ''zh-CN'' \<and>
   lang manager_en context_header = ''zh-CN'' \<and>
   lang_v0 manager_en context_header = ''zh-CN'' \<and>
   Header (Request context_agent) ''lang'' = '''' \<and>
   Split (UserAgent (Request context_agent)) CHR '';'' =
     [''app/1.0'', ''lang=fr-FR'', ''lang=de-DE''] \<and>
   (\<nexists>w. lang_token ''app/1.0'' w) \<and> lang_token ''lang=fr-FR'' ''fr-FR'' \<and>
   lang manager_en context_agent = ''fr-FR'' \<and>
   lang_token_v0 ''lang=de-DE'' ''de-DE'' \<and>
   lang_v0 manager_en context_agent = ''de-DE'' \<and>
   Header (Request context_plain) ''lang'' = '''' \<and>
   Split (UserAgent (Request context_plain)) CHR '';'' = [''''] \<and>
   (\<nexists>w. lang_token '''' w) \<and> (\<nexists>w. lang_token_v0 '''' w) \<and>
   lang manager_en context_plain = ''en-US'' \<and>
   lang_v0 manager_en context_plain = ''en-US''"
proof -
  note header = lang_selection [of context_header manager_en]
  note agent = lang_selection [of context_agent manager_en]
  note plain = lang_selection [of context_plain manager_en]
  have h1: "Header (Request context_header) ''lang'' = ''zh-CN''"
    by (simp add: context_header_def request_of_def)
  have h2: "Header (Request context_agent) ''lang'' = ''''"
    by (simp add: context_agent_def request_of_def)
  have h3: "Header (Request context_plain) ''lang'' = ''''"
    by (simp add: context_plain_def request_of_def)
  have s2: "Split (UserAgent (Request context_agent)) CHR '';'' =
     [''app/1.0'', ''lang=fr-FR'', ''lang=de-DE'']"
    by (simp add: context_agent_def request_of_def UserAgent_def)
  have s3: "Split (UserAgent (Request context_plain)) CHR '';'' = ['''']"
    by (simp add: context_plain_def request_of_def UserAgent_def)
  have t1: "\<nexists>w. lang_token ''app/1.0'' w"
    by (simp add: lang_token_def)
  have t2: "lang_token ''lang=fr-FR'' ''fr-FR''"
    by (simp add: lang_token_def)
  have t3: "\<nexists>w. lang_token '''' w"
    by (simp add: lang_token_def)
  have u2: "lang_token_v0 ''lang=de-DE'' ''de-DE''"
    by (simp add: lang_token_v0_def)
  have u3: "\<nexists>w. lang_token_v0 '''' w"
    by (simp add: lang_token_v0_def)
  have d: "defaultLang (Option manager_en) = ''en-US''"
    by (simp add: manager_en_def default_options_def)
  from header h1
  have r1: "lang manager_en context_header = ''zh-CN''"
    and q1: "lang_v0 manager_en context_header = ''zh-CN''"
    by simp_all
  have first: "Split (UserAgent (Request context_agent)) CHR '';'' =
      [''app/1.0''] @ ''lang=fr-FR'' # [''lang=de-DE''] \<and>
      (\<forall>u \<in> set [''app/1.0'']. \<nexists>w. lang_token u w) \<and> lang_token ''lang=fr-FR'' ''fr-FR''"
    using s2 t1 t2 by simp
  have last: "Split (UserAgent (Request context_agent)) CHR '';'' =
      [''app/1.0'', ''lang=fr-FR''] @ ''lang=de-DE'' # [] \<and>
      lang_token_v0 ''lang=de-DE'' ''de-DE'' \<and> (\<forall>u \<in> set []. \<nexists>w. lang_token_v0 u w)"
    using s2 u2 by simp
  from agent h2 first
  have r2: "lang manager_en context_agent = ''fr-FR''"
    by blast
  from agent h2 last
  have q2: "lang_v0 manager_en context_agent = ''de-DE''"
    by blast
  from plain h3 s3 t3 d
  have r3: "lang manager_en context_plain = ''en-US''"
    by simp
  from plain h3 s3 u3 d
  have q3: "lang_v0 manager_en context_plain = ''en-US''"
    by simp
  from h1 h2 h3 s2 s3 t1 t2 t3 u2 u3 r1 r2 r3 q1 q2 q3 show ?thesis
    by blast
qed

text \<open>
  The two versions side by side: equal on the header, different on two tokens and on
  the key \<^verbatim>\<open>Lang\<close>.
\<close>

lemma lang_v0_header:
  "Header (Request c) ''lang'' \<noteq> '''' \<Longrightarrow> lang_v0 m c = lang m c"
  by (simp add: lang_v0_def lang_def)

lemma lang_v0_examples:
  "lang_v0 manager_en context_agent = ''de-DE''"
  "lang manager_en context_agent = ''fr-FR''"
  "lang_v0 manager_en context_Lang = ''fr-FR''"
  "lang manager_en context_Lang = ''en-US''"
  by (simp_all add: lang_v0_def lang_def context_agent_def context_Lang_def request_of_def
      UserAgent_def
      manager_en_def default_options_def)

section \<open>Envelope assembly\<close>

text \<open>
  \<open>result\<close> in one piece: the envelope before the last step has the code, the
  resolved message, the trace id read from the context and the data.
\<close>

lemma result_unfold:
  "result Sprintf m c code data err =
     (case Keys c ''trace_id'' of
        None \<Rightarrow>
          Inr (desc_step m c err
            \<lparr>Code = code, Msg = Trans Sprintf m (lang m c) (Itoa code) (snd (split_data data)),
             Trace = \<lparr>ID = '''', Desc = ''''\<rparr>, Data = fst (split_data data)\<rparr>)
      | Some (VString s) \<Rightarrow>
          Inr (desc_step m c err
            \<lparr>Code = code, Msg = Trans Sprintf m (lang m c) (Itoa code) (snd (split_data data)),
             Trace = \<lparr>ID = s, Desc = ''''\<rparr>, Data = fst (split_data data)\<rparr>)
      | Some _ \<Rightarrow> Inl TypeAssertion)"
  by (simp add: result_def trace_step_def Let_def split_beta split: option.splits any.splits)

lemma desc_step_fields:
  "Code (desc_step m c err res) = Code res"
  "Msg (desc_step m c err res) = Msg res"
  "Data (desc_step m c err res) = Data res"
  "ID (Trace (desc_step m c err res)) = ID (Trace res)"
  "Desc (Trace (desc_step m c err res)) =
     (if isDebugMode m c \<and> err \<noteq> None then Sprintf_v err else Desc (Trace res))"
  by (auto simp add: desc_step_def)

text \<open>
  The route \<^verbatim>\<open>/busy\<close> of the test, with debugging on and a trace id in the context, and
  the route \<^verbatim>\<open>/test\<close> with its two parameters.
\<close>

lemma result_busy:
  "result Sprintf_s manager_debug context_traced (- 1) (VString ''busy'') (Some ''busy... '') =
     Inr \<lparr>Code = - 1, Msg = ''-1'', Trace = \<lparr>ID = ''1213gsgdfd'', Desc = ''busy... ''\<rparr>,
          Data = VString ''busy''\<rparr>"
proof -
  have "lang manager_debug context_traced = ''en-US''"
    by (simp add: lang_def manager_debug_def default_options_def context_traced_def
        request_of_def UserAgent_def)
  moreover have "Trans Sprintf_s manager_debug ''en-US'' ''-1'' [] = ''-1''"
    by (simp add: Trans_def langMap_def manager_debug_def catalog_en_def)
  moreover have "isDebugMode manager_debug context_traced"
    by (simp add: isDebugMode_def manager_debug_def default_options_def)
  moreover have "Keys context_traced ''trace_id'' = Some (VString ''1213gsgdfd'')"
    by (simp add: context_traced_def)
  ultimately show ?thesis
    by (simp add: result_unfold desc_step_def Itoa_examples)
qed

lemma lang_plain: "lang manager_en context_plain = ''en-US''"
  by (simp add: lang_def manager_en_def default_options_def context_plain_def
      request_of_def UserAgent_def)

lemma not_debug_plain: "\<not> isDebugMode manager_en context_plain"
  by (simp add: isDebugMode_def manager_en_def default_options_def context_plain_def
      request_of_def)

lemma Trans_en:
  "Trans Sprintf_s manager_en ''en-US'' ''0'' [] = ''ok''"
  "Trans Sprintf_s manager_en ''en-US'' ''1000'' [] = ''Hello,%s! Your id is:%s''"
  "Trans Sprintf_s manager_en ''en-US'' ''1000'' [''Seakee'', ''18888888888''] =
     ''Hello,Seakee! Your id is:18888888888''"
  by (simp_all add: Trans_def langMap_def manager_en_def catalog_en_def)

lemma result_plain:
  "result Sprintf_s manager_en context_plain code data err =
     Inr \<lparr>Code = code,
          Msg = Trans Sprintf_s manager_en ''en-US'' (Itoa code) (snd (split_data data)),
          Trace = \<lparr>ID = '''', Desc = ''''\<rparr>, Data = fst (split_data data)\<rparr>"
proof -
  have "Keys context_plain ''trace_id'' = None"
    by (simp add: context_plain_def)
  then show ?thesis
    by (simp add: result_unfold desc_step_def not_debug_plain lang_plain)
qed

text \<open>
  C4, as amended. Envelope assembly returns an envelope, for every response code,
  payload, error value and request, exactly when the request context holds no value
  under \<^verbatim>\<open>trace_id\<close> or holds a string there.

  As stated (for every value stored under the key) the claim fails: the value is
  read with the unchecked type assertion \<^verbatim>\<open>traceID.(string)\<close>, which panics on a value
  that is not a string.
\<close>

theorem result_returns_iff:
  "(\<exists>res. result Sprintf m c code data err = Inr res) \<longleftrightarrow>
   (Keys c ''trace_id'' = None \<or> (\<exists>s. Keys c ''trace_id'' = Some (VString s)))"
  by (auto simp add: result_unfold split: option.splits any.splits)

theorem result_total_counterexample:
  "result Sprintf_s manager_en context_bad_trace 0 (VString ''ok'') None = Inl TypeAssertion"
  by (simp add: result_unfold context_bad_trace_def)

theorem result_returns_iff_witness:
  "Keys context_traced ''trace_id'' = Some (VString ''1213gsgdfd'') \<and>
   (\<exists>res. result Sprintf_s manager_debug context_traced (- 1) (VString ''busy'')
      (Some ''busy... '') = Inr res) \<and>
   Keys context_plain ''trace_id'' = None \<and>
   (\<exists>res. result Sprintf_s manager_en context_plain 0 (VString ''ok'') None = Inr res) \<and>
   (\<nexists>res. result Sprintf_s manager_en context_bad_trace 0 (VString ''ok'') None = Inr res)"
proof -
  have k1: "Keys context_traced ''trace_id'' = Some (VString ''1213gsgdfd'')"
    by (simp add: context_traced_def)
  have k2: "Keys context_plain ''trace_id'' = None"
    by (simp add: context_plain_def)
  have k3: "Keys context_bad_trace ''trace_id'' = Some (VInt 42)"
    by (simp add: context_bad_trace_def)
  from result_returns_iff [of Sprintf_s manager_debug context_traced "- 1" "VString ''busy''"
      "Some ''busy... ''"] k1
  have r1: "\<exists>res. result Sprintf_s manager_debug context_traced (- 1) (VString ''busy'')
      (Some ''busy... '') = Inr res"
    by simp
  from result_returns_iff [of Sprintf_s manager_en context_plain 0 "VString ''ok''" None] k2
  have r2: "\<exists>res. result Sprintf_s manager_en context_plain 0 (VString ''ok'') None = Inr res"
    by simp
  from result_returns_iff [of Sprintf_s manager_en context_bad_trace 0 "VString ''ok''" None] k3
  have r3: "\<nexists>res. result Sprintf_s manager_en context_bad_trace 0 (VString ''ok'') None = Inr res"
    by simp
  from k1 r1 k2 r2 r3 show ?thesis
    by blast
qed

text \<open>
  C7. When the payload is a \<^verbatim>\<open>Data\<close> struct, the envelope's data is the struct's
  \<^verbatim>\<open>Data\<close> field and the message is resolved with the struct's \<^verbatim>\<open>Params\<close>. For every
  other payload the envelope's data is the payload itself and the message is resolved
  with no parameters.
\<close>

theorem result_payload:
  "result Sprintf m c code data err = Inr res \<Longrightarrow>
   (\<forall>ps d. data = VData ps d \<longrightarrow>
      Data res = d \<and> Msg res = Trans Sprintf m (lang m c) (Itoa code) ps) \<and>
   ((\<nexists>ps d. data = VData ps d) \<longrightarrow>
      Data res = data \<and> Msg res = Trans Sprintf m (lang m c) (Itoa code) [])"
  by (cases data)
    (auto simp add: result_unfold desc_step_fields split: option.splits any.splits)

text \<open>
  The route \<^verbatim>\<open>/test\<close>: the parameters go into the template and only the inner data is
  echoed. The same data as a plain payload, and a pointer to the struct, leave the
  template as it is.
\<close>

theorem result_payload_witness:
  "(\<exists>res. result Sprintf_s manager_en context_plain 1000
        (VData [''Seakee'', ''18888888888''] (VString ''test'')) None = Inr res \<and>
      Data res = VString ''test'' \<and> Msg res = ''Hello,Seakee! Your id is:18888888888'') \<and>
   (\<exists>res. result Sprintf_s manager_en context_plain 1000 (VString ''test'') None = Inr res \<and>
      Data res = VString ''test'' \<and> Msg res = ''Hello,%s! Your id is:%s'') \<and>
   (\<exists>res. result Sprintf_s manager_en context_plain 1000
        (VPtr (VData [''Seakee'', ''18888888888''] (VString ''test''))) None = Inr res \<and>
      Data res = VPtr (VData [''Seakee'', ''18888888888''] (VString ''test'')) \<and>
      Msg res = ''Hello,%s! Your id is:%s'')"
proof -
  let ?d = "VData [''Seakee'', ''18888888888''] (VString ''test'')"
  obtain r1 where r1: "result Sprintf_s manager_en context_plain 1000 ?d None = Inr r1"
    by (simp add: result_plain)
  obtain r2 where r2:
    "result Sprintf_s manager_en context_plain 1000 (VString ''test'') None = Inr r2"
    by (simp add: result_plain)
  obtain r3 where r3: "result Sprintf_s manager_en context_plain 1000 (VPtr ?d) None = Inr r3"
    by (simp add: result_plain)
  from result_payload [OF r1]
  have "Data r1 = VString ''test'' \<and> Msg r1 = ''Hello,Seakee! Your id is:18888888888''"
    by (simp add: lang_plain Itoa_examples Trans_en)
  moreover from result_payload [OF r2]
  have "Data r2 = VString ''test'' \<and> Msg r2 = ''Hello,%s! Your id is:%s''"
    by (simp add: lang_plain Itoa_examples Trans_en)
  moreover from result_payload [OF r3]
  have "Data r3 = VPtr ?d \<and> Msg r3 = ''Hello,%s! Your id is:%s''"
    by (simp add: lang_plain Itoa_examples Trans_en)
  ultimately show ?thesis
    using r1 r2 r3 by blast
qed

text \<open>
  C8. The envelope's trace description is the printed error when debug output is
  allowed for the request and the error is not nil, and the empty string otherwise;
  so, whenever the printed error is not the empty string, the description equals it
  if and only if debug output is allowed and the error is not nil. The error has no
  effect on the envelope's code and message, nor on whether an envelope is returned.
\<close>

theorem result_trace_desc:
  "result Sprintf m c code data err = Inr res \<Longrightarrow>
   Desc (Trace res) = (if isDebugMode m c \<and> err \<noteq> None then Sprintf_v err else '''') \<and>
   (Sprintf_v err \<noteq> '''' \<longrightarrow>
      (Desc (Trace res) = Sprintf_v err \<longleftrightarrow> isDebugMode m c \<and> err \<noteq> None)) \<and>
   Code res = code \<and>
   (\<forall>err'. \<exists>res'. result Sprintf m c code data err' = Inr res' \<and>
      Code res' = Code res \<and> Msg res' = Msg res)"
  by (auto simp add: result_unfold desc_step_fields split: option.splits any.splits)

text \<open>
  The route \<^verbatim>\<open>/busy\<close> with debugging on: the description is the error's text, and with
  a nil error it is empty, under the same code and message.
\<close>

theorem result_trace_desc_witness:
  "isDebugMode manager_debug context_traced \<and>
   (\<exists>res. result Sprintf_s manager_debug context_traced (- 1) (VString ''busy'')
        (Some ''busy... '') = Inr res \<and>
      Desc (Trace res) = ''busy... '' \<and> Code res = - 1 \<and> Msg res = ''-1'' \<and>
      (\<exists>res'. result Sprintf_s manager_debug context_traced (- 1) (VString ''busy'') None
          = Inr res' \<and>
        Desc (Trace res') = '''' \<and> Code res' = - 1 \<and> Msg res' = ''-1''))"
proof -
  let ?r = "\<lparr>Code = - 1, Msg = ''-1'', Trace = \<lparr>ID = ''1213gsgdfd'', Desc = ''busy... ''\<rparr>,
             Data = VString ''busy''\<rparr>"
  have d: "isDebugMode manager_debug context_traced"
    by (simp add: isDebugMode_def manager_debug_def default_options_def)
  from result_trace_desc [OF result_busy]
  have desc: "Desc (Trace ?r) = ''busy... ''" and code: "Code ?r = - 1"
    and other: "\<exists>res'. result Sprintf_s manager_debug context_traced (- 1) (VString ''busy'')
      None = Inr res' \<and> Code res' = Code ?r \<and> Msg res' = Msg ?r"
    using d by simp_all
  from other obtain res' where
    r': "result Sprintf_s manager_debug context_traced (- 1) (VString ''busy'') None = Inr res'"
    and same: "Code res' = - 1" "Msg res' = ''-1''"
    by auto
  from result_trace_desc [OF r']
  have "Desc (Trace res') = ''''"
    by simp
  with r' same d desc code result_busy show ?thesis
    by auto
qed

text \<open>
  An error that prints as the empty string (\<^verbatim>\<open>errors.New("")\<close>) with debug output off:
  the description is empty, as for every error then.
\<close>

lemma result_empty_error:
  "result Sprintf_s manager_en context_plain 0 (VString ''ok'') (Some '''') =
     Inr \<lparr>Code = 0, Msg = ''ok'', Trace = \<lparr>ID = '''', Desc = ''''\<rparr>, Data = VString ''ok''\<rparr>"
  by (simp add: result_plain Itoa_examples Trans_en)

section \<open>The default language\<close>

text \<open>
  C9. \<open>SetLang\<close> with the empty string changes nothing: the Manager is the one it
  was. With any string, the language list, the run environment and the other options
  stay as they were; a non-empty string becomes the default language, and only a
  non-empty string changes it. The function is the same in both versions of the
  package.
\<close>

theorem SetLang_frame:
  "SetLang m '''' = m \<and>
   (l \<noteq> '''' \<longrightarrow> defaultLang (Option (SetLang m l)) = l) \<and>
   (defaultLang (Option (SetLang m l)) \<noteq> defaultLang (Option m) \<longrightarrow> l \<noteq> '''') \<and>
   LangList (SetLang m l) = LangList m \<and>
   RunEnv (SetLang m l) = RunEnv m \<and>
   langDir (Option (SetLang m l)) = langDir (Option m) \<and>
   envKey (Option (SetLang m l)) = envKey (Option m) \<and>
   debugMode (Option (SetLang m l)) = debugMode (Option m)"
  by (simp add: SetLang_def)

text \<open>
  The test's \<^verbatim>\<open>SetLang("zh-CN")\<close> on a Manager whose default is \<^verbatim>\<open>en-US\<close>, and the call
  with the empty string.
\<close>

theorem SetLang_frame_witness:
  "SetLang manager_en '''' = manager_en \<and>
   defaultLang (Option manager_en) = ''en-US'' \<and>
   defaultLang (Option (SetLang manager_en ''zh-CN'')) = ''zh-CN'' \<and>
   LangList (SetLang manager_en ''zh-CN'') = LangList manager_en \<and>
   RunEnv (SetLang manager_en ''zh-CN'') = RunEnv manager_en \<and>
   langDir (Option (SetLang manager_en ''zh-CN'')) = ''./lang'' \<and>
   envKey (Option (SetLang manager_en ''zh-CN'')) = ''RUN_MODE'' \<and>
   debugMode (Option (SetLang manager_en ''zh-CN'')) = False"
  using SetLang_frame [of manager_en "''zh-CN''"]
  by (simp add: manager_en_def default_options_def)

section \<open>Count and Lang\<close>

lemma Lang_loop_filter: "Lang_loop ks acc = acc @ filter (\<lambda>l. l \<noteq> '''') ks"
  by (induction ks arbitrary: acc) simp_all

lemma Lang_filter: "Lang m ks = filter (\<lambda>l. l \<noteq> '''') ks"
  by (simp add: Lang_def Lang_loop_filter)

lemma length_filter_distinct:
  "distinct ks \<Longrightarrow>
   length ks = length (filter (\<lambda>l. l \<noteq> x) ks) + (if x \<in> set ks then 1 else 0)"
  by (induction ks) auto

text \<open>
  C10. In whatever order the keys of \<open>LangList\<close> come, \<open>Lang\<close> returns the keys
  that are not the empty string, each once, and \<open>Count\<close> is the number of all keys.
  When the empty string is a key, \<open>Count\<close> is greater than the length of the list of
  \<open>Lang\<close>, by one; when it is not, the two are equal.
\<close>

theorem Lang_Count:
  "range_order (LangList m) ks \<Longrightarrow>
   set (Lang m ks) = dom (LangList m) - {''''} \<and>
   distinct (Lang m ks) \<and>
   Count m = length ks \<and>
   ('''' \<in> dom (LangList m) \<longrightarrow>
      length (Lang m ks) < Count m \<and> Count m = length (Lang m ks) + 1) \<and>
   ('''' \<notin> dom (LangList m) \<longrightarrow> Count m = length (Lang m ks))"
proof -
  assume order: "range_order (LangList m) ks"
  then have d: "distinct ks" and s: "set ks = dom (LangList m)"
    by (simp_all add: range_order_def)
  have keys: "set (Lang m ks) = dom (LangList m) - {''''}"
    using s by (auto simp add: Lang_filter)
  have once: "distinct (Lang m ks)"
    using d by (simp add: Lang_filter)
  have count: "Count m = length ks"
    using d s by (simp add: Count_def distinct_card [symmetric])
  have "length ks = length (Lang m ks) + (if '''' \<in> set ks then 1 else 0)"
    using d by (simp only: Lang_filter length_filter_distinct [of ks "''''"])
  with count s have
    "'''' \<in> dom (LangList m) \<longrightarrow>
       length (Lang m ks) < Count m \<and> Count m = length (Lang m ks) + 1"
    "'''' \<notin> dom (LangList m) \<longrightarrow> Count m = length (Lang m ks)"
    by simp_all
  with keys once count show ?thesis
    by simp
qed

text \<open>
  A language file named \<^verbatim>\<open>.json\<close> gives the empty language identifier: two keys, one
  language listed.
\<close>

theorem Lang_Count_witness:
  "range_order (LangList manager_unnamed) [''en-US'', ''''] \<and>
   '''' \<in> dom (LangList manager_unnamed) \<and>
   Lang manager_unnamed [''en-US'', ''''] = [''en-US''] \<and>
   Count manager_unnamed = 2 \<and>
   length (Lang manager_unnamed [''en-US'', '''']) < Count manager_unnamed"
proof -
  have order: "range_order (LangList manager_unnamed) [''en-US'', '''']"
    by (auto simp add: range_order_def manager_unnamed_def)
  have key: "'''' \<in> dom (LangList manager_unnamed)"
    by (simp add: manager_unnamed_def)
  have list: "Lang manager_unnamed [''en-US'', ''''] = [''en-US'']"
    by (simp add: Lang_def)
  from Lang_Count [OF order] key list
  have "Count manager_unnamed = 2"
    by simp
  with order key list show ?thesis
    by simp
qed

end
